theory Spec2Isabelle
  imports Complex_Main "HOL-Library.Sublist"
begin

section \<open>The sidebar: Streamlit widgets (Python part of mulberry_audio.py)\<close>

text \<open>
  The Python script reads six widgets and pastes their values into the JavaScript of the
  audio component. Numbers are modelled as mathematical numbers: the integer slider as
  \<open>int\<close>, the float sliders and every JavaScript number as \<open>real\<close>.

  \<open>st.sidebar.slider\<close> and \<open>st.sidebar.selectbox\<close> are functions of the Streamlit
  library. What they return in a run of the script is the current value of the widget,
  which depends on what the user did with it, so they are parameters of the model: a
  slider for integers and one for floats, called with the label, \<open>min_value\<close>,
  \<open>max_value\<close>, \<open>value\<close> and \<open>step\<close>, and a select box, called with the label, the
  options and the index. The \<open>help\<close> texts are left out. The script uses whatever the
  widgets return; it has no check of its own.
\<close>

record widgets =
  slider_int :: "string \<Rightarrow> int \<Rightarrow> int \<Rightarrow> int \<Rightarrow> int \<Rightarrow> int"
  slider_float :: "string \<Rightarrow> real \<Rightarrow> real \<Rightarrow> real \<Rightarrow> real \<Rightarrow> real"
  selectbox :: "string \<Rightarrow> string list \<Rightarrow> nat \<Rightarrow> string"

text \<open>The six constants the f-string writes into the script element.\<close>

record settings =
  frequency :: int
  waveform :: string
  attack :: real
  decay :: real
  sustain :: real
  release :: real

definition sidebar :: "widgets \<Rightarrow> settings" where
  "sidebar ui =
     \<lparr>frequency = slider_int ui ''Frequency (Hz)'' 200 800 440 1,
      waveform = selectbox ui ''Waveform Type''
        [''sine'', ''square'', ''sawtooth'', ''triangle''] 0,
      attack = slider_float ui ''Attack (s)'' 0.01 2.0 0.1 0.01,
      decay = slider_float ui ''Decay (s)'' 0.01 2.0 0.2 0.01,
      sustain = slider_float ui ''Sustain Level'' 0.0 1.0 0.5 0.01,
      release = slider_float ui ''Release (s)'' 0.01 3.0 0.3 0.01\<rparr>"

text \<open>
  Widgets nobody has touched: a slider returns its \<open>value\<close> argument and the select
  box the option at its \<open>index\<close>.
\<close>

definition untouched :: widgets where
  "untouched =
     \<lparr>slider_int = (\<lambda>label min_value max_value val step. val),
      slider_float = (\<lambda>label min_value max_value val step. val),
      selectbox = (\<lambda>label options index. options ! index)\<rparr>"

text \<open>The settings of a page whose widgets were never touched.\<close>

definition defaults :: settings where
  "defaults = \<lparr>frequency = 440, waveform = ''sine'', attack = 0.1, decay = 0.2,
     sustain = 0.5, release = 0.3\<rparr>"

section \<open>Web Audio parameter automation\<close>

text \<open>
  An \<open>AudioParam\<close> keeps a timeline of automation events ordered by time. The program
  uses two kinds: \<open>setValueAtTime(value, time)\<close> and
  \<open>linearRampToValueAtTime(value, endTime)\<close>. A new event goes after the events that
  are not later than it.
\<close>

datatype automation = SetValue real real | LinearRamp real real

fun eventValue :: "automation \<Rightarrow> real" where
  "eventValue (SetValue v t) = v"
| "eventValue (LinearRamp v t) = v"

fun eventTime :: "automation \<Rightarrow> real" where
  "eventTime (SetValue v t) = t"
| "eventTime (LinearRamp v t) = t"

fun insertEvent :: "automation \<Rightarrow> automation list \<Rightarrow> automation list" where
  "insertEvent e [] = [e]"
| "insertEvent e (x # xs) =
     (if eventTime e < eventTime x then e # x # xs else x # insertEvent e xs)"

definition setValueAtTime :: "real \<Rightarrow> real \<Rightarrow> automation list \<Rightarrow> automation list" where
  "setValueAtTime v t p = insertEvent (SetValue v t) p"

definition linearRampToValueAtTime :: "real \<Rightarrow> real \<Rightarrow> automation list \<Rightarrow> automation list" where
  "linearRampToValueAtTime v t p = insertEvent (LinearRamp v t) p"

text \<open>
  The value of a parameter at time \<open>t\<close>, walking the timeline with the time \<open>T0\<close> and
  value \<open>V0\<close> of the previous event: before the next event's time a set-value event
  leaves \<open>V0\<close> standing and a ramp interpolates linearly from \<open>(T0, V0)\<close> to its own
  end point; from an event's time on, the event's value stands until the next event.
\<close>

fun valueFrom :: "real \<Rightarrow> real \<Rightarrow> automation list \<Rightarrow> real \<Rightarrow> real" where
  "valueFrom T0 V0 [] t = V0"
| "valueFrom T0 V0 (SetValue v T # es) t =
     (if t < T then V0 else valueFrom T v es t)"
| "valueFrom T0 V0 (LinearRamp v T # es) t =
     (if t < T then V0 + (v - V0) * ((t - T0) / (T - T0)) else valueFrom T v es t)"

text \<open>
  Before the first event a parameter has its default value. Every timeline of the
  program starts with a set-value event, so the starting time passed on here (it would
  only be read by a ramp that has no event before it) is never used.
\<close>

definition paramValue :: "real \<Rightarrow> automation list \<Rightarrow> real \<Rightarrow> real" where
  "paramValue dflt es t = valueFrom 0 dflt es t"

section \<open>The page: status line, voices and timers (JavaScript part)\<close>

text \<open>
  A voice is one oscillator wired through its own gain node to the destination: the
  oscillator's type, the timeline of its frequency parameter, the timeline of the gain
  parameter, and the times given to \<open>start\<close> and \<open>stop\<close>.
\<close>

record voice =
  osc_type :: string
  osc_frequency :: "automation list"
  gain :: "automation list"
  startTime :: real
  stopTime :: real

text \<open>A pending \<open>setTimeout\<close>: the delay in milliseconds and the callback.\<close>

datatype callback = PlayNoteInScale real real string | HideStatus

record timer =
  delay :: real
  action :: callback

text \<open>
  The state the script works on: whether the global \<open>audioContext\<close> has been created,
  the text of the status element and whether it carries the class \<open>active\<close>, the
  voices created so far and the timers not yet fired.
\<close>

record page =
  audioContext :: bool
  statusText :: string
  statusActive :: bool
  voices :: "voice list"
  timers :: "timer list"

definition pageLoaded :: page where
  "pageLoaded = \<lparr>audioContext = False, statusText = [], statusActive = False,
     voices = [], timers = []\<rparr>"

definition showStatus :: "string \<Rightarrow> page \<Rightarrow> page" where
  "showStatus message st = st\<lparr>statusText := message, statusActive := True\<rparr>"

definition updateStatus :: "string \<Rightarrow> page \<Rightarrow> page" where
  "updateStatus message st =
     (if statusActive st then st\<lparr>statusText := message\<rparr> else st)"

definition hideStatus :: "page \<Rightarrow> page" where
  "hideStatus st = st\<lparr>statusActive := False\<rparr>"

definition setTimeout :: "callback \<Rightarrow> real \<Rightarrow> page \<Rightarrow> page" where
  "setTimeout cb ms st = st\<lparr>timers := timers st @ [\<lparr>delay = ms, action = cb\<rparr>]\<rparr>"

text \<open>Resuming a suspended context changes nothing that is modelled here.\<close>

definition initAudioContext :: "page \<Rightarrow> page" where
  "initAudioContext st =
     (if \<not> audioContext st
      then showStatus ''Audio context initialized'' (st\<lparr>audioContext := True\<rparr>)
      else st)"

text \<open>
  \<open>playTone\<close>; \<open>now\<close> is the reading of \<open>audioContext.currentTime\<close>. The status
  message is a template literal whose braces have no dollar sign, so the text is shown
  as it is written.
\<close>

definition playTone :: "settings \<Rightarrow> real \<Rightarrow> page \<Rightarrow> page" where
  "playTone cfg now st =
     (let st1 = initAudioContext st;
          oscFrequency = setValueAtTime (of_int (frequency cfg)) now [];
          noteDuration = attack cfg + decay cfg + 0.5;
          g0 = setValueAtTime 0 now [];
          g1 = linearRampToValueAtTime 1.0 (now + attack cfg) g0;
          g2 = linearRampToValueAtTime (sustain cfg) (now + attack cfg + decay cfg) g1;
          g3 = linearRampToValueAtTime (sustain cfg) (now + noteDuration) g2;
          g4 = linearRampToValueAtTime 0 (now + noteDuration + release cfg) g3;
          v = \<lparr>osc_type = waveform cfg, osc_frequency = oscFrequency, gain = g4,
               startTime = now, stopTime = now + noteDuration + release cfg\<rparr>;
          st2 = st1\<lparr>voices := voices st1 @ [v]\<rparr>;
          st3 = showStatus ''Playing {frequency}Hz {waveform} tone with ADSR envelope'' st2
      in setTimeout HideStatus ((noteDuration + release cfg) * 1000 + 500) st3)"

definition playNoteInScale :: "settings \<Rightarrow> real \<Rightarrow> real \<Rightarrow> string \<Rightarrow> real \<Rightarrow> page \<Rightarrow> page" where
  "playNoteInScale cfg freq duration noteName now st =
     (let oscFrequency = setValueAtTime freq now [];
          quickAttack = 0.01;
          quickRelease = 0.05;
          g0 = setValueAtTime 0 now [];
          g1 = linearRampToValueAtTime 0.5 (now + quickAttack) g0;
          g2 = linearRampToValueAtTime 0.5 (now + duration - quickRelease) g1;
          g3 = linearRampToValueAtTime 0 (now + duration) g2;
          v = \<lparr>osc_type = waveform cfg, osc_frequency = oscFrequency, gain = g3,
               startTime = now, stopTime = now + duration\<rparr>;
          st1 = st\<lparr>voices := voices st @ [v]\<rparr>
      in updateStatus ''Playing {noteName} ({freq.toFixed(2)}Hz)'' st1)"

definition cMajorScale :: "real list" where
  "cMajorScale = [261.63, 293.66, 329.63, 349.23, 392.00, 440.00, 493.88, 523.25]"

definition noteNames :: "string list" where
  "noteNames = [''C4'', ''D4'', ''E4'', ''F4'', ''G4'', ''A4'', ''B4'', ''C5'']"

text \<open>
  \<open>playCMajorScale\<close>: the \<open>forEach\<close> over the frequencies and their indices is the
  fold over the enumerated table.
\<close>

definition playCMajorScale :: "page \<Rightarrow> page" where
  "playCMajorScale st =
     (let st1 = initAudioContext st;
          noteDuration = 0.3;
          st2 = showStatus ''Playing C-Major scale...'' st1;
          st3 = foldl (\<lambda>s (freq, index).
                   setTimeout (PlayNoteInScale freq noteDuration (noteNames ! index))
                     (real index * noteDuration * 1000) s)
                 st2 (zip cMajorScale [0 ..< length cMajorScale]);
          totalDuration = real (length cMajorScale) * noteDuration
      in setTimeout HideStatus (totalDuration * 1000 + 500) st3)"

section \<open>Running the page\<close>

text \<open>A timer callback, run when the audio clock reads \<open>now\<close>.\<close>

fun runCallback :: "settings \<Rightarrow> real \<Rightarrow> callback \<Rightarrow> page \<Rightarrow> page" where
  "runCallback cfg now (PlayNoteInScale freq duration noteName) st =
     playNoteInScale cfg freq duration noteName now st"
| "runCallback cfg now HideStatus st = hideStatus st"

text \<open>
  The event loop with timers that are on time: the pending timers fire in the order of
  their delays (timers of equal delay in the order they were set), each when the audio
  clock, which read \<open>t0\<close> when the timers were set, has advanced by the timer's delay.
  No callback of this page sets a timer, so one pass empties the queue.
\<close>

definition runTimers :: "settings \<Rightarrow> real \<Rightarrow> page \<Rightarrow> page" where
  "runTimers cfg t0 st =
     foldl (\<lambda>s tm. runCallback cfg (t0 + delay tm / 1000) (action tm) s)
       (st\<lparr>timers := []\<rparr>) (sort_key delay (timers st))"

text \<open>The two buttons of the page, the only controls it has.\<close>

datatype button = PlayToneButton | PlayScaleButton

fun click :: "settings \<Rightarrow> real \<Rightarrow> button \<Rightarrow> page \<Rightarrow> page" where
  "click cfg now PlayToneButton st = playTone cfg now st"
| "click cfg now PlayScaleButton st = playCMajorScale st"


section \<open>Observations\<close>

text \<open>The gain of a voice at a time (a gain node's parameter has default value 1) and
  the frequency of its oscillator (default 440).\<close>

definition gainAt :: "voice \<Rightarrow> real \<Rightarrow> real" where
  "gainAt v t = paramValue 1 (gain v) t"

definition frequencyAt :: "voice \<Rightarrow> real \<Rightarrow> real" where
  "frequencyAt v t = paramValue 440 (osc_frequency v) t"

text \<open>The voice a call has just added.\<close>

definition newestVoice :: "page \<Rightarrow> voice" where
  "newestVoice st = last (voices st)"

text \<open>
  The length of the plateau of a tone's envelope: from the end of the decay ramp (the
  third event of the gain timeline) to the end of the hold ramp (the fourth event),
  where the release ramp begins.
\<close>

definition holdSeconds :: "voice \<Rightarrow> real" where
  "holdSeconds v = eventTime (gain v ! 3) - eventTime (gain v ! 2)"

text \<open>
  The gain timeline of \<open>playTone\<close> with the literal 0.5 in \<open>noteDuration\<close> turned
  into the parameter \<open>hold\<close>: the same five automation calls in the same order. The
  timeline \<open>playTone\<close> builds is the instance \<open>hold = 0.5\<close>.
\<close>

definition adsrTimeline :: "real \<Rightarrow> real \<Rightarrow> real \<Rightarrow> real \<Rightarrow> real \<Rightarrow> real \<Rightarrow> automation list" where
  "adsrTimeline now a d s hold r =
     (let noteDuration = a + d + hold;
          g0 = setValueAtTime 0 now [];
          g1 = linearRampToValueAtTime 1.0 (now + a) g0;
          g2 = linearRampToValueAtTime s (now + a + d) g1;
          g3 = linearRampToValueAtTime s (now + noteDuration) g2
      in linearRampToValueAtTime 0 (now + noteDuration + r) g3)"

text \<open>The gain that timeline gives \<open>t\<close> seconds after the note's start.\<close>

definition adsrGain :: "real \<Rightarrow> real \<Rightarrow> real \<Rightarrow> real \<Rightarrow> real \<Rightarrow> real \<Rightarrow> real \<Rightarrow> real" where
  "adsrGain now a d s hold r t = paramValue 1 (adsrTimeline now a d s hold r) (now + t)"

section \<open>The envelope of a tone, stage by stage\<close>

lemma adsrTimeline_events:
  assumes "0 \<le> a" "0 \<le> d" "0 \<le> h" "0 \<le> r"
  shows "adsrTimeline now a d s h r =
    [SetValue 0 now, LinearRamp 1 (now + a), LinearRamp s (now + a + d),
     LinearRamp s (now + a + d + h), LinearRamp 0 (now + a + d + h + r)]"
  using assms
  by (simp add: adsrTimeline_def Let_def setValueAtTime_def linearRampToValueAtTime_def add.assoc)

lemma playTone_voices:
  "voices (playTone cfg now st) = voices st @
     [\<lparr>osc_type = waveform cfg,
       osc_frequency = [SetValue (of_int (frequency cfg)) now],
       gain = adsrTimeline now (attack cfg) (decay cfg) (sustain cfg) 0.5 (release cfg),
       startTime = now,
       stopTime = now + (attack cfg + decay cfg + 0.5) + release cfg\<rparr>]"
  by (simp add: playTone_def Let_def adsrTimeline_def setTimeout_def showStatus_def
      initAudioContext_def setValueAtTime_def)

lemma adsr_attack:
  assumes "0 < a" "0 < d" "0 \<le> h" "0 < r" "0 \<le> t" "t \<le> a"
  shows "paramValue 1 (adsrTimeline now a d s h r) (now + t) = t / a"
  using assms by (auto simp add: adsrTimeline_events paramValue_def field_simps)

lemma adsr_decay:
  assumes "0 < a" "0 < d" "0 \<le> h" "0 < r" "a \<le> t" "t \<le> a + d"
  shows "paramValue 1 (adsrTimeline now a d s h r) (now + t) = 1 + (s - 1) * ((t - a) / d)"
  using assms by (auto simp add: adsrTimeline_events paramValue_def field_simps)

lemma adsr_sustain:
  assumes "0 < a" "0 < d" "0 \<le> h" "0 < r" "a + d \<le> t" "t \<le> a + d + h"
  shows "paramValue 1 (adsrTimeline now a d s h r) (now + t) = s"
  using assms by (auto simp add: adsrTimeline_events paramValue_def field_simps)

lemma adsr_release:
  assumes "0 < a" "0 < d" "0 \<le> h" "0 < r" "a + d + h \<le> t" "t \<le> a + d + h + r"
  shows "paramValue 1 (adsrTimeline now a d s h r) (now + t) = s - s * ((t - (a + d + h)) / r)"
  using assms by (auto simp add: adsrTimeline_events paramValue_def field_simps)

lemma adsr_done:
  assumes "0 < a" "0 < d" "0 \<le> h" "0 < r" "a + d + h + r \<le> t"
  shows "paramValue 1 (adsrTimeline now a d s h r) (now + t) = 0"
  using assms by (auto simp add: adsrTimeline_events paramValue_def field_simps)

lemma newest_playTone:
  "newestVoice (playTone cfg now st) =
     \<lparr>osc_type = waveform cfg,
       osc_frequency = [SetValue (of_int (frequency cfg)) now],
       gain = adsrTimeline now (attack cfg) (decay cfg) (sustain cfg) 0.5 (release cfg),
       startTime = now,
       stopTime = now + (attack cfg + decay cfg + 0.5) + release cfg\<rparr>"
  by (simp add: newestVoice_def playTone_voices)

lemma gainAt_playTone:
  "gainAt (newestVoice (playTone cfg now st)) t =
     paramValue 1 (adsrTimeline now (attack cfg) (decay cfg) (sustain cfg) 0.5 (release cfg)) t"
  by (simp add: gainAt_def newest_playTone)

section \<open>The status line\<close>

text \<open>
  Claim C10. \<open>updateStatus\<close> is a no-op while the status element is not active: the
  whole page state, text and visibility included, stays as it was. While the element is
  active it replaces the text and nothing else. \<open>showStatus\<close> sets the text and
  activates the element in every state.
\<close>

theorem updateStatus_only_when_active:
  "(\<not> statusActive st \<longrightarrow> updateStatus message st = st)
   \<and> (statusActive st \<longrightarrow>
        statusText (updateStatus message st) = message
        \<and> statusActive (updateStatus message st)
        \<and> audioContext (updateStatus message st) = audioContext st
        \<and> voices (updateStatus message st) = voices st
        \<and> timers (updateStatus message st) = timers st)
   \<and> statusText (showStatus message st) = message
   \<and> statusActive (showStatus message st)"
  by (simp add: updateStatus_def showStatus_def)

theorem updateStatus_only_when_active_witness:
  "\<not> statusActive (hideStatus pageLoaded)
   \<and> updateStatus ''Playing'' (hideStatus pageLoaded) = hideStatus pageLoaded
   \<and> statusActive (showStatus ''Ready'' pageLoaded)
   \<and> statusText (updateStatus ''Playing'' (showStatus ''Ready'' pageLoaded)) = ''Playing''
   \<and> statusText (showStatus ''Playing'' (hideStatus pageLoaded)) = ''Playing''
   \<and> statusActive (showStatus ''Playing'' (hideStatus pageLoaded))"
  using updateStatus_only_when_active [of "hideStatus pageLoaded" "''Playing''"]
    updateStatus_only_when_active [of "showStatus ''Ready'' pageLoaded" "''Playing''"]
  by (simp add: hideStatus_def showStatus_def pageLoaded_def)

section \<open>Playing a single tone\<close>

text \<open>
  Claim C1. For settings within the slider ranges \<open>playTone\<close> adds exactly one voice,
  started at the current time; its gain is 0 at the start, 1 after \<open>attack\<close>, equal to
  \<open>sustain\<close> from \<open>attack + decay\<close> to \<open>attack + decay + 0.5\<close>, and 0 at
  \<open>attack + decay + 0.5 + release\<close>, which is the time the oscillator is stopped at.
  With attack 0.1, decay 0.2 and release 0.3 the note lasts 1.1 seconds.
\<close>

theorem playTone_envelope:
  assumes "200 \<le> frequency cfg" "frequency cfg \<le> 800"
    and "0.01 \<le> attack cfg" "attack cfg \<le> 2.0"
    and "0.01 \<le> decay cfg" "decay cfg \<le> 2.0"
    and "0 \<le> sustain cfg" "sustain cfg \<le> 1"
    and "0.01 \<le> release cfg" "release cfg \<le> 3.0"
  shows "voices (playTone cfg now st) = voices st @ [newestVoice (playTone cfg now st)]
    \<and> startTime (newestVoice (playTone cfg now st)) = now
    \<and> gainAt (newestVoice (playTone cfg now st)) now = 0
    \<and> gainAt (newestVoice (playTone cfg now st)) (now + attack cfg) = 1.0
    \<and> (\<forall>t. attack cfg + decay cfg \<le> t \<and> t \<le> attack cfg + decay cfg + 0.5 \<longrightarrow>
          gainAt (newestVoice (playTone cfg now st)) (now + t) = sustain cfg)
    \<and> gainAt (newestVoice (playTone cfg now st))
          (now + (attack cfg + decay cfg + 0.5 + release cfg)) = 0
    \<and> stopTime (newestVoice (playTone cfg now st))
          = now + (attack cfg + decay cfg + 0.5 + release cfg)
    \<and> (attack cfg = 0.1 \<and> decay cfg = 0.2 \<and> release cfg = 0.3 \<longrightarrow>
          stopTime (newestVoice (playTone cfg now st))
            - startTime (newestVoice (playTone cfg now st)) = 1.1)"
proof -
  let ?v = "newestVoice (playTone cfg now st)"
  have pos: "0 < attack cfg" "0 < decay cfg" "(0::real) \<le> 0.5" "0 < release cfg"
    using assms by simp_all
  have one: "voices (playTone cfg now st) = voices st @ [?v]"
    by (simp add: newestVoice_def playTone_voices)
  have g0: "gainAt ?v now = 0"
    using adsr_attack [OF pos, of 0 now "sustain cfg"] pos by (simp add: gainAt_playTone)
  have g1: "gainAt ?v (now + attack cfg) = 1.0"
    using adsr_attack [OF pos, of "attack cfg" now "sustain cfg"] pos
    by (simp add: gainAt_playTone)
  have gs: "gainAt ?v (now + t) = sustain cfg"
    if "attack cfg + decay cfg \<le> t" "t \<le> attack cfg + decay cfg + 0.5" for t
    using adsr_sustain [OF pos that] by (simp add: gainAt_playTone)
  have ge: "gainAt ?v (now + (attack cfg + decay cfg + 0.5 + release cfg)) = 0"
    using adsr_done [OF pos, of "attack cfg + decay cfg + 0.5 + release cfg" now "sustain cfg"]
    by (simp add: gainAt_playTone)
  have st: "startTime ?v = now"
    and sp: "stopTime ?v = now + (attack cfg + decay cfg + 0.5 + release cfg)"
    by (simp_all add: newest_playTone)
  have dur: "stopTime ?v - startTime ?v = 1.1"
    if "attack cfg = 0.1 \<and> decay cfg = 0.2 \<and> release cfg = 0.3"
    using that by (simp add: st sp)
  from one st g0 g1 gs ge sp dur show ?thesis by blast
qed

theorem playTone_envelope_witness:
  "gainAt (newestVoice (playTone defaults 0 pageLoaded)) 0 = 0
   \<and> gainAt (newestVoice (playTone defaults 0 pageLoaded)) 0.1 = 1
   \<and> gainAt (newestVoice (playTone defaults 0 pageLoaded)) 0.3 = 0.5
   \<and> gainAt (newestVoice (playTone defaults 0 pageLoaded)) 0.8 = 0.5
   \<and> gainAt (newestVoice (playTone defaults 0 pageLoaded)) 1.1 = 0
   \<and> stopTime (newestVoice (playTone defaults 0 pageLoaded)) = 1.1
   \<and> stopTime (newestVoice (playTone defaults 0 pageLoaded))
        - startTime (newestVoice (playTone defaults 0 pageLoaded)) = 1.1"
proof -
  have dom: "200 \<le> frequency defaults" "frequency defaults \<le> 800"
    "0.01 \<le> attack defaults" "attack defaults \<le> 2.0"
    "0.01 \<le> decay defaults" "decay defaults \<le> 2.0"
    "0 \<le> sustain defaults" "sustain defaults \<le> 1"
    "0.01 \<le> release defaults" "release defaults \<le> 3.0"
    by (simp_all add: defaults_def)
  have vals: "attack defaults = 0.1" "decay defaults = 0.2" "sustain defaults = 0.5"
    "release defaults = 0.3"
    by (simp_all add: defaults_def)
  note th = playTone_envelope [OF dom, of 0 pageLoaded]
  have a: "gainAt (newestVoice (playTone defaults 0 pageLoaded)) (0 + 0.3) = 0.5"
    using th by (simp add: vals)
  have b: "gainAt (newestVoice (playTone defaults 0 pageLoaded)) (0 + 0.8) = 0.5"
    using th by (simp add: vals)
  show ?thesis using th a b by (simp add: vals)
qed

section \<open>Shape of the envelope\<close>

lemma adsr_cont_attack:
  assumes "0 < a" "0 < d" "0 \<le> h" "0 < r"
  shows "continuous_on {0..a} (adsrGain now a d s h r)"
proof -
  have "continuous_on {0..a} (\<lambda>t. t / a)"
    by (intro continuous_intros) (use assms in simp)
  moreover have "continuous_on {0..a} (adsrGain now a d s h r) \<longleftrightarrow> continuous_on {0..a} (\<lambda>t. t / a)"
    by (rule continuous_on_cong) (simp_all add: adsrGain_def adsr_attack [OF assms])
  ultimately show ?thesis by simp
qed

lemma adsr_cont_decay:
  assumes "0 < a" "0 < d" "0 \<le> h" "0 < r"
  shows "continuous_on {a..a + d} (adsrGain now a d s h r)"
proof -
  have "continuous_on {a..a + d} (\<lambda>t. 1 + (s - 1) * ((t - a) / d))"
    by (intro continuous_intros) (use assms in simp)
  moreover have "continuous_on {a..a + d} (adsrGain now a d s h r)
      \<longleftrightarrow> continuous_on {a..a + d} (\<lambda>t. 1 + (s - 1) * ((t - a) / d))"
    by (rule continuous_on_cong) (simp_all add: adsrGain_def adsr_decay [OF assms])
  ultimately show ?thesis by simp
qed

lemma adsr_cont_sustain:
  assumes "0 < a" "0 < d" "0 \<le> h" "0 < r"
  shows "continuous_on {a + d..a + d + h} (adsrGain now a d s h r)"
proof -
  have "continuous_on {a + d..a + d + h} (adsrGain now a d s h r)
      \<longleftrightarrow> continuous_on {a + d..a + d + h} (\<lambda>t. s)"
    by (rule continuous_on_cong) (simp_all add: adsrGain_def adsr_sustain [OF assms])
  then show ?thesis by simp
qed

lemma adsr_cont_release:
  assumes "0 < a" "0 < d" "0 \<le> h" "0 < r"
  shows "continuous_on {a + d + h..a + d + h + r} (adsrGain now a d s h r)"
proof -
  have "continuous_on {a + d + h..a + d + h + r} (\<lambda>t. s - s * ((t - (a + d + h)) / r))"
    by (intro continuous_intros) (use assms in simp)
  moreover have "continuous_on {a + d + h..a + d + h + r} (adsrGain now a d s h r)
      \<longleftrightarrow> continuous_on {a + d + h..a + d + h + r} (\<lambda>t. s - s * ((t - (a + d + h)) / r))"
    by (rule continuous_on_cong) (simp_all add: adsrGain_def adsr_release [OF assms])
  ultimately show ?thesis by simp
qed

lemma adsr_cont_done:
  assumes "0 < a" "0 < d" "0 \<le> h" "0 < r"
  shows "continuous_on {a + d + h + r..} (adsrGain now a d s h r)"
proof -
  have "continuous_on {a + d + h + r..} (adsrGain now a d s h r)
      \<longleftrightarrow> continuous_on {a + d + h + r..} (\<lambda>t. 0::real)"
    by (rule continuous_on_cong) (simp_all add: adsrGain_def adsr_done [OF assms])
  then show ?thesis by simp
qed

lemma adsr_mono_attack:
  assumes "0 < a" "0 < d" "0 \<le> h" "0 < r" and "0 \<le> t" "t \<le> u" "u \<le> a"
  shows "adsrGain now a d s h r t \<le> adsrGain now a d s h r u"
proof -
  have "adsrGain now a d s h r t = t / a" "adsrGain now a d s h r u = u / a"
    using assms by (simp_all add: adsrGain_def adsr_attack)
  then show ?thesis using assms by (simp add: divide_right_mono)
qed

lemma adsr_antimono_decay:
  assumes "0 < a" "0 < d" "0 \<le> h" "0 < r" and "s \<le> 1" and "a \<le> t" "t \<le> u" "u \<le> a + d"
  shows "adsrGain now a d s h r u \<le> adsrGain now a d s h r t"
proof -
  have eq: "adsrGain now a d s h r t = 1 + (s - 1) * ((t - a) / d)"
    "adsrGain now a d s h r u = 1 + (s - 1) * ((u - a) / d)"
    using assms by (simp_all add: adsrGain_def adsr_decay)
  have "(t - a) / d \<le> (u - a) / d"
    using assms by (simp add: divide_right_mono)
  then have "(s - 1) * ((u - a) / d) \<le> (s - 1) * ((t - a) / d)"
    using \<open>s \<le> 1\<close> by (intro mult_left_mono_neg) simp_all
  then show ?thesis by (simp add: eq)
qed

lemma adsr_antimono_release:
  assumes "0 < a" "0 < d" "0 \<le> h" "0 < r" and "0 \<le> s"
    and "a + d + h \<le> t" "t \<le> u" "u \<le> a + d + h + r"
  shows "adsrGain now a d s h r u \<le> adsrGain now a d s h r t"
proof -
  have eq: "adsrGain now a d s h r t = s - s * ((t - (a + d + h)) / r)"
    "adsrGain now a d s h r u = s - s * ((u - (a + d + h)) / r)"
    using assms by (simp_all add: adsrGain_def adsr_release)
  have "(t - (a + d + h)) / r \<le> (u - (a + d + h)) / r"
    using assms by (simp add: divide_right_mono)
  then have "s * ((t - (a + d + h)) / r) \<le> s * ((u - (a + d + h)) / r)"
    using \<open>0 \<le> s\<close> by (intro mult_left_mono) simp_all
  then show ?thesis by (simp add: eq)
qed

lemma gainAt_playTone_adsrGain:
  "gainAt (newestVoice (playTone cfg now st)) (now + t) =
     adsrGain now (attack cfg) (decay cfg) (sustain cfg) 0.5 (release cfg) t"
  by (simp add: gainAt_playTone adsrGain_def)

text \<open>
  Claim C6. For every valid envelope (attack, decay and release at least 0.01, sustain
  between 0 and 1) and every hold that is not negative, the gain is continuous on each
  stage, is 0 at elapsed time 0 and from \<open>attack + decay + hold + release\<close> on, does
  not decrease during the attack and does not increase during decay and release.
  \<open>playTone\<close> only ever uses the hold 0.5: the last conjunct says that the gain of
  the voice it creates is this function at \<open>hold = 0.5\<close>.
\<close>

theorem adsr_gain_shape:
  assumes "0.01 \<le> a" "0.01 \<le> d" "0 \<le> s" "s \<le> 1" "0.01 \<le> r" and "0 \<le> h"
  shows "continuous_on {0..a} (adsrGain now a d s h r)
    \<and> continuous_on {a..a + d} (adsrGain now a d s h r)
    \<and> continuous_on {a + d..a + d + h} (adsrGain now a d s h r)
    \<and> continuous_on {a + d + h..a + d + h + r} (adsrGain now a d s h r)
    \<and> adsrGain now a d s h r 0 = 0
    \<and> (\<forall>t. a + d + h + r \<le> t \<longrightarrow> adsrGain now a d s h r t = 0)
    \<and> (\<forall>t u. 0 \<le> t \<and> t \<le> u \<and> u \<le> a \<longrightarrow>
          adsrGain now a d s h r t \<le> adsrGain now a d s h r u)
    \<and> (\<forall>t u. a \<le> t \<and> t \<le> u \<and> u \<le> a + d \<longrightarrow>
          adsrGain now a d s h r u \<le> adsrGain now a d s h r t)
    \<and> (\<forall>t u. a + d + h \<le> t \<and> t \<le> u \<and> u \<le> a + d + h + r \<longrightarrow>
          adsrGain now a d s h r u \<le> adsrGain now a d s h r t)
    \<and> (\<forall>cfg st t. gainAt (newestVoice (playTone cfg now st)) (now + t) =
          adsrGain now (attack cfg) (decay cfg) (sustain cfg) 0.5 (release cfg) t)"
proof -
  have pos: "0 < a" "0 < d" "0 \<le> h" "0 < r"
    using assms by simp_all
  have zero: "adsrGain now a d s h r 0 = 0"
    using adsr_attack [OF pos, of 0 now s] pos by (simp add: adsrGain_def)
  have after: "adsrGain now a d s h r t = 0" if "a + d + h + r \<le> t" for t
    using adsr_done [OF pos that] by (simp add: adsrGain_def)
  have mono: "\<forall>t u. 0 \<le> t \<and> t \<le> u \<and> u \<le> a \<longrightarrow>
      adsrGain now a d s h r t \<le> adsrGain now a d s h r u"
    using adsr_mono_attack [OF pos] by blast
  have anti_decay: "\<forall>t u. a \<le> t \<and> t \<le> u \<and> u \<le> a + d \<longrightarrow>
      adsrGain now a d s h r u \<le> adsrGain now a d s h r t"
    using adsr_antimono_decay [OF pos \<open>s \<le> 1\<close>] by blast
  have anti_release: "\<forall>t u. a + d + h \<le> t \<and> t \<le> u \<and> u \<le> a + d + h + r \<longrightarrow>
      adsrGain now a d s h r u \<le> adsrGain now a d s h r t"
    using adsr_antimono_release [OF pos \<open>0 \<le> s\<close>] by blast
  have silent: "\<forall>t. a + d + h + r \<le> t \<longrightarrow> adsrGain now a d s h r t = 0"
    using after by blast
  have code: "\<forall>cfg st t. gainAt (newestVoice (playTone cfg now st)) (now + t) =
      adsrGain now (attack cfg) (decay cfg) (sustain cfg) 0.5 (release cfg) t"
    by (simp add: gainAt_playTone_adsrGain)
  show ?thesis
    using adsr_cont_attack [OF pos, of now s] adsr_cont_decay [OF pos, of now s]
      adsr_cont_sustain [OF pos, of now s] adsr_cont_release [OF pos, of now s]
      zero silent mono anti_decay anti_release code
    by (intro conjI)
qed

theorem adsr_gain_shape_witness:
  "continuous_on {0..0.1} (adsrGain 0 0.1 0.2 0.5 0.5 0.3)
   \<and> continuous_on {0.1..0.1 + 0.2} (adsrGain 0 0.1 0.2 0.5 0.5 0.3)
   \<and> adsrGain 0 0.1 0.2 0.5 0.5 0.3 0 = 0
   \<and> adsrGain 0 0.1 0.2 0.5 0.5 0.3 1.1 = 0
   \<and> adsrGain 0 0.1 0.2 0.5 0.5 0.3 7 = 0
   \<and> adsrGain 0 0.1 0.2 0.5 0.5 0.3 0.05 \<le> adsrGain 0 0.1 0.2 0.5 0.5 0.3 0.1
   \<and> adsrGain 0 0.1 0.2 0.5 0.5 0.3 0.3 \<le> adsrGain 0 0.1 0.2 0.5 0.5 0.3 0.2
   \<and> adsrGain 0 0.1 0.2 0.5 0.5 0.3 1.1 \<le> adsrGain 0 0.1 0.2 0.5 0.5 0.3 0.9"
proof -
  have valid: "(0.01::real) \<le> 0.1" "(0.01::real) \<le> 0.2" "(0::real) \<le> 0.5"
    "(0.5::real) \<le> 1" "(0.01::real) \<le> 0.3" "(0::real) \<le> 0.5"
    by simp_all
  note th = adsr_gain_shape [OF valid, of 0]
  have after: "\<forall>t. 0.1 + 0.2 + 0.5 + 0.3 \<le> t \<longrightarrow> adsrGain 0 0.1 0.2 0.5 0.5 0.3 t = 0"
    and up: "\<forall>t u. 0 \<le> t \<and> t \<le> u \<and> u \<le> 0.1 \<longrightarrow>
      adsrGain 0 0.1 0.2 0.5 0.5 0.3 t \<le> adsrGain 0 0.1 0.2 0.5 0.5 0.3 u"
    and down: "\<forall>t u. 0.1 \<le> t \<and> t \<le> u \<and> u \<le> 0.1 + 0.2 \<longrightarrow>
      adsrGain 0 0.1 0.2 0.5 0.5 0.3 u \<le> adsrGain 0 0.1 0.2 0.5 0.5 0.3 t"
    and out: "\<forall>t u. 0.1 + 0.2 + 0.5 \<le> t \<and> t \<le> u \<and> u \<le> 0.1 + 0.2 + 0.5 + 0.3 \<longrightarrow>
      adsrGain 0 0.1 0.2 0.5 0.5 0.3 u \<le> adsrGain 0 0.1 0.2 0.5 0.5 0.3 t"
    using th by simp_all
  have "adsrGain 0 0.1 0.2 0.5 0.5 0.3 1.1 = 0"
    using after [rule_format, of "1.1"] by simp
  moreover have "adsrGain 0 0.1 0.2 0.5 0.5 0.3 7 = 0"
    using after [rule_format, of 7] by simp
  moreover have "adsrGain 0 0.1 0.2 0.5 0.5 0.3 0.05 \<le> adsrGain 0 0.1 0.2 0.5 0.5 0.3 0.1"
    using up [rule_format, of "0.05" "0.1"] by simp
  moreover have "adsrGain 0 0.1 0.2 0.5 0.5 0.3 0.3 \<le> adsrGain 0 0.1 0.2 0.5 0.5 0.3 0.2"
    using down [rule_format, of "0.2" "0.3"] by simp
  moreover have "adsrGain 0 0.1 0.2 0.5 0.5 0.3 1.1 \<le> adsrGain 0 0.1 0.2 0.5 0.5 0.3 0.9"
    using out [rule_format, of "0.9" "1.1"] by simp
  ultimately show ?thesis using th by (intro conjI) simp_all
qed

section \<open>The gain schedule of a tone is well formed\<close>

lemma ramp_between:
  fixes V0 v x :: real
  assumes "lo \<le> V0" "V0 \<le> hi" "lo \<le> v" "v \<le> hi" "0 \<le> x" "x \<le> 1"
  shows "lo \<le> V0 + (v - V0) * x \<and> V0 + (v - V0) * x \<le> hi"
proof -
  have eq: "V0 + (v - V0) * x = (1 - x) * V0 + x * v"
    by (simp add: algebra_simps)
  have "(1 - x) * lo + x * lo \<le> (1 - x) * V0 + x * v"
    using assms by (intro add_mono mult_left_mono) simp_all
  moreover have "(1 - x) * V0 + x * v \<le> (1 - x) * hi + x * hi"
    using assms by (intro add_mono mult_left_mono) simp_all
  ultimately show ?thesis
    by (simp add: eq algebra_simps)
qed

lemma adsrGain_bounds:
  assumes pos: "0 < a" "0 < d" "0 \<le> h" "0 < r" and s: "0 \<le> s" "s \<le> 1" and t: "0 \<le> t"
  shows "0 \<le> adsrGain now a d s h r t \<and> adsrGain now a d s h r t \<le> 1"
proof -
  consider (attack) "t \<le> a" | (decay) "a \<le> t" "t \<le> a + d"
    | (sustain) "a + d \<le> t" "t \<le> a + d + h"
    | (release) "a + d + h \<le> t" "t \<le> a + d + h + r" | (finished) "a + d + h + r \<le> t"
    by linarith
  then show ?thesis
  proof cases
    case attack
    then show ?thesis
      using pos t by (simp add: adsrGain_def adsr_attack)
  next
    case decay
    have x: "0 \<le> (t - a) / d" "(t - a) / d \<le> 1"
      using decay pos by simp_all
    show ?thesis
      using ramp_between [of 0 1 1 s "(t - a) / d"] x s decay pos
      by (simp add: adsrGain_def adsr_decay)
  next
    case sustain
    then show ?thesis
      using pos s by (simp add: adsrGain_def adsr_sustain)
  next
    case release
    have x: "0 \<le> (t - (a + d + h)) / r" "(t - (a + d + h)) / r \<le> 1"
      using release pos by simp_all
    show ?thesis
      using ramp_between [of 0 s 1 0 "(t - (a + d + h)) / r"] x s release pos
      by (simp add: adsrGain_def adsr_release)
  next
    case finished
    then show ?thesis
      using pos by (simp add: adsrGain_def adsr_done)
  qed
qed

lemma adsrGain_continuous:
  assumes pos: "0 < a" "0 < d" "0 \<le> h" "0 < r"
  shows "continuous_on {0..} (adsrGain now a d s h r)"
proof -
  have split: "{0..} = {0..a} \<union> ({a..a + d} \<union> ({a + d..a + d + h}
      \<union> ({a + d + h..a + d + h + r} \<union> {a + d + h + r..})))"
    using pos by auto
  have "continuous_on ({0..a} \<union> ({a..a + d} \<union> ({a + d..a + d + h}
      \<union> ({a + d + h..a + d + h + r} \<union> {a + d + h + r..})))) (adsrGain now a d s h r)"
    by (intro continuous_on_closed_Un closed_Un closed_atLeastAtMost closed_atLeast
        adsr_cont_attack adsr_cont_decay adsr_cont_sustain adsr_cont_release adsr_cont_done pos)
  then show ?thesis
    by (simp only: split [symmetric])
qed

lemma gainAt_playTone_before:
  assumes "0 \<le> attack cfg" "0 \<le> decay cfg" "0 \<le> release cfg" "t < now"
  shows "gainAt (newestVoice (playTone cfg now st)) t = 1"
  using assms by (simp add: gainAt_playTone adsrTimeline_events paramValue_def)

lemma gainAt_playTone_elapsed:
  "gainAt (newestVoice (playTone cfg now st)) t =
     adsrGain now (attack cfg) (decay cfg) (sustain cfg) 0.5 (release cfg) (t - now)"
  by (simp add: gainAt_playTone adsrGain_def)

lemma playTone_gain_events:
  assumes "0 \<le> attack cfg" "0 \<le> decay cfg" "0 \<le> release cfg"
  shows "gain (newestVoice (playTone cfg now st)) =
    [SetValue 0 now, LinearRamp 1 (now + attack cfg),
     LinearRamp (sustain cfg) (now + attack cfg + decay cfg),
     LinearRamp (sustain cfg) (now + attack cfg + decay cfg + 0.5),
     LinearRamp 0 (now + attack cfg + decay cfg + 0.5 + release cfg)]"
  using assms by (simp add: newest_playTone adsrTimeline_events)

text \<open>
  Claim C9. For settings within the slider ranges the gain of the tone stays between 0
  and 1 at every time; the breakpoints of its schedule are strictly increasing
  (\<open>0 < attack < attack + decay < attack + decay + 0.5 < attack + decay + 0.5 + release\<close>);
  the decay ramp ends at \<open>sustain\<close> and an explicit hold ramp from \<open>sustain\<close> to
  \<open>sustain\<close> covers the plateau, so the release ramp starts at \<open>sustain\<close>; and the
  gain is continuous from the start of the note on, that is, it never jumps.
\<close>

theorem playTone_gain_wellformed:
  assumes "200 \<le> frequency cfg" "frequency cfg \<le> 800"
    and "0.01 \<le> attack cfg" "attack cfg \<le> 2.0"
    and "0.01 \<le> decay cfg" "decay cfg \<le> 2.0"
    and "0 \<le> sustain cfg" "sustain cfg \<le> 1"
    and "0.01 \<le> release cfg" "release cfg \<le> 3.0"
  shows "(\<forall>t. 0 \<le> gainAt (newestVoice (playTone cfg now st)) t
            \<and> gainAt (newestVoice (playTone cfg now st)) t \<le> 1)
    \<and> map eventTime (gain (newestVoice (playTone cfg now st))) =
         [now, now + attack cfg, now + (attack cfg + decay cfg),
          now + (attack cfg + decay cfg + 0.5),
          now + (attack cfg + decay cfg + 0.5 + release cfg)]
    \<and> 0 < attack cfg \<and> attack cfg < attack cfg + decay cfg
    \<and> attack cfg + decay cfg < attack cfg + decay cfg + 0.5
    \<and> attack cfg + decay cfg + 0.5 < attack cfg + decay cfg + 0.5 + release cfg
    \<and> sorted_wrt (<) (map eventTime (gain (newestVoice (playTone cfg now st))))
    \<and> map eventValue (gain (newestVoice (playTone cfg now st))) =
         [0, 1, sustain cfg, sustain cfg, 0]
    \<and> gain (newestVoice (playTone cfg now st)) ! 3
         = LinearRamp (sustain cfg) (now + (attack cfg + decay cfg + 0.5))
    \<and> gainAt (newestVoice (playTone cfg now st)) (now + (attack cfg + decay cfg))
         = sustain cfg
    \<and> gainAt (newestVoice (playTone cfg now st)) (now + (attack cfg + decay cfg + 0.5))
         = sustain cfg
    \<and> continuous_on {now..} (gainAt (newestVoice (playTone cfg now st)))"
proof -
  let ?v = "newestVoice (playTone cfg now st)"
  have pos: "0 < attack cfg" "0 < decay cfg" "(0::real) \<le> 0.5" "0 < release cfg"
    using assms by simp_all
  have nn: "0 \<le> attack cfg" "0 \<le> decay cfg" "0 \<le> release cfg"
    using pos by simp_all
  have range: "0 \<le> gainAt ?v t \<and> gainAt ?v t \<le> 1" for t
  proof (cases "t < now")
    case True
    then show ?thesis by (simp add: gainAt_playTone_before [OF nn])
  next
    case False
    then have "0 \<le> t - now" by simp
    from adsrGain_bounds [OF pos \<open>0 \<le> sustain cfg\<close> \<open>sustain cfg \<le> 1\<close> this]
    show ?thesis by (simp add: gainAt_playTone_elapsed)
  qed
  have events: "gain ?v =
    [SetValue 0 now, LinearRamp 1 (now + attack cfg),
     LinearRamp (sustain cfg) (now + attack cfg + decay cfg),
     LinearRamp (sustain cfg) (now + attack cfg + decay cfg + 0.5),
     LinearRamp 0 (now + attack cfg + decay cfg + 0.5 + release cfg)]"
    by (rule playTone_gain_events [OF nn])
  have times: "map eventTime (gain ?v) =
         [now, now + attack cfg, now + (attack cfg + decay cfg),
          now + (attack cfg + decay cfg + 0.5),
          now + (attack cfg + decay cfg + 0.5 + release cfg)]"
    by (simp add: events add.assoc)
  have increasing: "sorted_wrt (<) (map eventTime (gain ?v))"
    using pos by (simp add: times)
  have vals: "map eventValue (gain ?v) = [0, 1, sustain cfg, sustain cfg, 0]"
    by (simp add: events)
  have holdRamp: "gain ?v ! 3 = LinearRamp (sustain cfg) (now + (attack cfg + decay cfg + 0.5))"
    by (simp add: events add.assoc)
  have decayEnd: "gainAt ?v (now + (attack cfg + decay cfg)) = sustain cfg"
    using adsr_sustain [OF pos, of "attack cfg + decay cfg" now "sustain cfg"]
    by (simp add: gainAt_playTone)
  have releaseStart: "gainAt ?v (now + (attack cfg + decay cfg + 0.5)) = sustain cfg"
    using adsr_sustain [OF pos, of "attack cfg + decay cfg + 0.5" now "sustain cfg"]
    by (simp add: gainAt_playTone)
  have "continuous_on {now..}
      (\<lambda>t. adsrGain now (attack cfg) (decay cfg) (sustain cfg) 0.5 (release cfg) (t - now))"
  proof (rule continuous_on_compose2 [OF adsrGain_continuous [OF pos]])
    show "continuous_on {now..} (\<lambda>t. t - now)"
      by (intro continuous_intros)
    show "(\<lambda>t. t - now) ` {now..} \<subseteq> {0..}"
      by auto
  qed
  then have cont: "continuous_on {now..} (gainAt ?v)"
    by (simp add: gainAt_playTone_elapsed [abs_def])
  from range times pos increasing vals holdRamp decayEnd releaseStart cont
  show ?thesis by simp
qed

theorem playTone_gain_wellformed_witness:
  "0 \<le> gainAt (newestVoice (playTone defaults 0 pageLoaded)) 0.05
   \<and> gainAt (newestVoice (playTone defaults 0 pageLoaded)) 0.05 \<le> 1
   \<and> map eventTime (gain (newestVoice (playTone defaults 0 pageLoaded)))
        = [0, 0.1, 0.3, 0.8, 1.1]
   \<and> sorted_wrt (<) (map eventTime (gain (newestVoice (playTone defaults 0 pageLoaded))))
   \<and> map eventValue (gain (newestVoice (playTone defaults 0 pageLoaded)))
        = [0, 1, 0.5, 0.5, 0]
   \<and> gainAt (newestVoice (playTone defaults 0 pageLoaded)) 0.3 = 0.5
   \<and> gainAt (newestVoice (playTone defaults 0 pageLoaded)) 0.8 = 0.5
   \<and> continuous_on {0..} (gainAt (newestVoice (playTone defaults 0 pageLoaded)))"
proof -
  have dom: "200 \<le> frequency defaults" "frequency defaults \<le> 800"
    "0.01 \<le> attack defaults" "attack defaults \<le> 2.0"
    "0.01 \<le> decay defaults" "decay defaults \<le> 2.0"
    "0 \<le> sustain defaults" "sustain defaults \<le> 1"
    "0.01 \<le> release defaults" "release defaults \<le> 3.0"
    by (simp_all add: defaults_def)
  have vals: "attack defaults = 0.1" "decay defaults = 0.2" "sustain defaults = 0.5"
    "release defaults = 0.3"
    by (simp_all add: defaults_def)
  note th = playTone_gain_wellformed [OF dom, of 0 pageLoaded]
  show ?thesis
    using th by (simp add: vals)
qed

section \<open>The single note and its hold\<close>

text \<open>
  Claim C2 says that the sustain hold of the single tone is \<open>attack + decay + 0.5\<close>.
  With the default settings that would be 0.8 seconds of sustain, from 0.3 to 1.1
  seconds after the start, and a stop at 1.4 seconds. The program holds for 0.5
  seconds: one second after the start the gain is already down to 1/6, and the
  oscillator stops at 1.1 seconds.
\<close>

theorem playTone_hold_counterexample:
  "holdSeconds (newestVoice (playTone defaults 0 pageLoaded)) = 0.5
   \<and> holdSeconds (newestVoice (playTone defaults 0 pageLoaded))
        \<noteq> attack defaults + decay defaults + 0.5
   \<and> attack defaults + decay defaults \<le> 1
   \<and> 1 < attack defaults + decay defaults + (attack defaults + decay defaults + 0.5)
   \<and> gainAt (newestVoice (playTone defaults 0 pageLoaded)) 1 = 1 / 6
   \<and> gainAt (newestVoice (playTone defaults 0 pageLoaded)) 1 \<noteq> sustain defaults
   \<and> stopTime (newestVoice (playTone defaults 0 pageLoaded))
        \<noteq> attack defaults + decay defaults + (attack defaults + decay defaults + 0.5)
            + release defaults"
  by (simp add: holdSeconds_def newest_playTone gainAt_def adsrTimeline_events
      paramValue_def defaults_def)

text \<open>
  Claim C2, amended. \<open>playTone\<close> adds exactly one voice. It starts at the current
  time, has the configured waveform and, from its start on, the configured frequency;
  its envelope is built from the configured attack, decay, sustain and release; the
  sustain hold is the fixed 0.5 seconds, so that the release begins
  \<open>noteDuration = attack + decay + 0.5\<close> seconds after the start.
\<close>

theorem playTone_single_note:
  assumes "0 \<le> attack cfg" "0 \<le> decay cfg" "0 \<le> release cfg"
  shows "voices (playTone cfg now st) = voices st @ [newestVoice (playTone cfg now st)]
    \<and> startTime (newestVoice (playTone cfg now st)) = now
    \<and> osc_type (newestVoice (playTone cfg now st)) = waveform cfg
    \<and> (\<forall>t. now \<le> t \<longrightarrow>
          frequencyAt (newestVoice (playTone cfg now st)) t = of_int (frequency cfg))
    \<and> gain (newestVoice (playTone cfg now st)) =
         [SetValue 0 now, LinearRamp 1 (now + attack cfg),
          LinearRamp (sustain cfg) (now + attack cfg + decay cfg),
          LinearRamp (sustain cfg) (now + attack cfg + decay cfg + 0.5),
          LinearRamp 0 (now + attack cfg + decay cfg + 0.5 + release cfg)]
    \<and> holdSeconds (newestVoice (playTone cfg now st)) = 0.5
    \<and> eventTime (gain (newestVoice (playTone cfg now st)) ! 3)
         = now + (attack cfg + decay cfg + 0.5)
    \<and> stopTime (newestVoice (playTone cfg now st))
         = now + (attack cfg + decay cfg + 0.5) + release cfg"
proof -
  let ?v = "newestVoice (playTone cfg now st)"
  have one: "voices (playTone cfg now st) = voices st @ [?v]"
    by (simp add: newestVoice_def playTone_voices)
  have osc: "startTime ?v = now" "osc_type ?v = waveform cfg"
    "stopTime ?v = now + (attack cfg + decay cfg + 0.5) + release cfg"
    by (simp_all add: newest_playTone)
  have freq: "\<forall>t. now \<le> t \<longrightarrow> frequencyAt ?v t = of_int (frequency cfg)"
    by (simp add: frequencyAt_def newest_playTone paramValue_def)
  note events = playTone_gain_events [OF assms, of now st]
  have hold: "holdSeconds ?v = 0.5"
    by (simp add: holdSeconds_def events)
  have rel: "eventTime (gain ?v ! 3) = now + (attack cfg + decay cfg + 0.5)"
    by (simp add: events)
  from one osc freq events hold rel show ?thesis
    by simp
qed

theorem playTone_single_note_witness:
  "voices (playTone defaults 0 pageLoaded) = [newestVoice (playTone defaults 0 pageLoaded)]
   \<and> startTime (newestVoice (playTone defaults 0 pageLoaded)) = 0
   \<and> osc_type (newestVoice (playTone defaults 0 pageLoaded)) = ''sine''
   \<and> frequencyAt (newestVoice (playTone defaults 0 pageLoaded)) 0 = 440
   \<and> frequencyAt (newestVoice (playTone defaults 0 pageLoaded)) 1 = 440
   \<and> gain (newestVoice (playTone defaults 0 pageLoaded)) =
        [SetValue 0 0, LinearRamp 1 0.1, LinearRamp 0.5 0.3, LinearRamp 0.5 0.8,
         LinearRamp 0 1.1]
   \<and> holdSeconds (newestVoice (playTone defaults 0 pageLoaded)) = 0.5
   \<and> eventTime (gain (newestVoice (playTone defaults 0 pageLoaded)) ! 3) = 0.8
   \<and> stopTime (newestVoice (playTone defaults 0 pageLoaded)) = 1.1"
proof -
  have nn: "0 \<le> attack defaults" "0 \<le> decay defaults" "0 \<le> release defaults"
    by (simp_all add: defaults_def)
  have vals: "attack defaults = 0.1" "decay defaults = 0.2" "sustain defaults = 0.5"
    "release defaults = 0.3" "frequency defaults = 440" "waveform defaults = ''sine''"
    by (simp_all add: defaults_def)
  have init: "voices pageLoaded = []"
    by (simp add: pageLoaded_def)
  note th = playTone_single_note [OF nn, of 0 pageLoaded]
  show ?thesis
    using th by (simp add: vals init)
qed

section \<open>Playing the scale\<close>

lemma scale_indices: "[0 ..< length cMajorScale] = [0, 1, 2, 3, 4, 5, 6, 7]"
  by (simp add: cMajorScale_def upt_rec)

lemma timers_setTimeout: "timers (setTimeout cb ms st) = timers st @ [\<lparr>delay = ms, action = cb\<rparr>]"
  by (simp add: setTimeout_def)

lemma timers_showStatus: "timers (showStatus m st) = timers st"
  by (simp add: showStatus_def)

lemma timers_initAudioContext: "timers (initAudioContext st) = timers st"
  by (simp add: initAudioContext_def showStatus_def)

lemma voices_setTimeout: "voices (setTimeout cb ms st) = voices st"
  by (simp add: setTimeout_def)

lemma voices_showStatus: "voices (showStatus m st) = voices st"
  by (simp add: showStatus_def)

lemma voices_initAudioContext: "voices (initAudioContext st) = voices st"
  by (simp add: initAudioContext_def showStatus_def)

lemma voices_hideStatus: "voices (hideStatus st) = voices st"
  by (simp add: hideStatus_def)

lemma playCMajorScale_timers:
  "timers (playCMajorScale st) = timers st @
     [\<lparr>delay = 0, action = PlayNoteInScale 261.63 0.3 ''C4''\<rparr>,
      \<lparr>delay = 300, action = PlayNoteInScale 293.66 0.3 ''D4''\<rparr>,
      \<lparr>delay = 600, action = PlayNoteInScale 329.63 0.3 ''E4''\<rparr>,
      \<lparr>delay = 900, action = PlayNoteInScale 349.23 0.3 ''F4''\<rparr>,
      \<lparr>delay = 1200, action = PlayNoteInScale 392.00 0.3 ''G4''\<rparr>,
      \<lparr>delay = 1500, action = PlayNoteInScale 440.00 0.3 ''A4''\<rparr>,
      \<lparr>delay = 1800, action = PlayNoteInScale 493.88 0.3 ''B4''\<rparr>,
      \<lparr>delay = 2100, action = PlayNoteInScale 523.25 0.3 ''C5''\<rparr>,
      \<lparr>delay = 2900, action = HideStatus\<rparr>]"
  unfolding playCMajorScale_def Let_def scale_indices
  by (simp add: cMajorScale_def noteNames_def timers_setTimeout timers_showStatus
      timers_initAudioContext)

lemma playCMajorScale_voices: "voices (playCMajorScale st) = voices st"
  unfolding playCMajorScale_def Let_def scale_indices
  by (simp add: cMajorScale_def voices_setTimeout voices_showStatus voices_initAudioContext)

lemma playNoteInScale_voices:
  "voices (playNoteInScale cfg freq 0.3 noteName now st) = voices st @
     [\<lparr>osc_type = waveform cfg, osc_frequency = [SetValue freq now],
       gain = [SetValue 0 now, LinearRamp 0.5 (now + 0.01), LinearRamp 0.5 (now + 0.25),
               LinearRamp 0 (now + 0.3)],
       startTime = now, stopTime = now + 0.3\<rparr>]"
  by (simp add: playNoteInScale_def Let_def updateStatus_def setValueAtTime_def
      linearRampToValueAtTime_def)

lemma scale_voices:
  "voices (runTimers cfg t0 (playCMajorScale pageLoaded)) =
     map (\<lambda>(freq, start).
       \<lparr>osc_type = waveform cfg, osc_frequency = [SetValue freq start],
        gain = [SetValue 0 start, LinearRamp 0.5 (start + 0.01), LinearRamp 0.5 (start + 0.25),
                LinearRamp 0 (start + 0.3)],
        startTime = start, stopTime = start + 0.3\<rparr>)
     [(261.63, t0), (293.66, t0 + 0.3), (329.63, t0 + 0.6), (349.23, t0 + 0.9),
      (392.00, t0 + 1.2), (440.00, t0 + 1.5), (493.88, t0 + 1.8), (523.25, t0 + 2.1)]"
proof -
  have init: "timers pageLoaded = []" "voices pageLoaded = []"
    by (simp_all add: pageLoaded_def)
  have start: "voices ((playCMajorScale pageLoaded)\<lparr>timers := []\<rparr>) = []"
    by (simp add: playCMajorScale_voices init)
  show ?thesis
    unfolding runTimers_def
    by (simp add: playCMajorScale_timers init playNoteInScale_voices voices_hideStatus start)
qed

lemma quick_attack:
  assumes "0 \<le> t" "t \<le> 0.01"
  shows "paramValue 1 [SetValue 0 now, LinearRamp 0.5 (now + 0.01), LinearRamp 0.5 (now + 0.25),
           LinearRamp 0 (now + 0.3)] (now + t) = 0.5 * (t / 0.01)"
  using assms by (auto simp add: paramValue_def)

lemma quick_hold:
  assumes "0.01 \<le> t" "t \<le> 0.25"
  shows "paramValue 1 [SetValue 0 now, LinearRamp 0.5 (now + 0.01), LinearRamp 0.5 (now + 0.25),
           LinearRamp 0 (now + 0.3)] (now + t) = 0.5"
  using assms by (auto simp add: paramValue_def)

lemma quick_release:
  assumes "0.25 \<le> t" "t \<le> 0.3"
  shows "paramValue 1 [SetValue 0 now, LinearRamp 0.5 (now + 0.01), LinearRamp 0.5 (now + 0.25),
           LinearRamp 0 (now + 0.3)] (now + t) = 0.5 - 0.5 * ((t - 0.25) / 0.05)"
  using assms by (auto simp add: paramValue_def field_simps)

lemma quick_silent:
  assumes "0.3 \<le> t"
  shows "paramValue 1 [SetValue 0 now, LinearRamp 0.5 (now + 0.01), LinearRamp 0.5 (now + 0.25),
           LinearRamp 0 (now + 0.3)] (now + t) = 0"
  using assms by (auto simp add: paramValue_def)

lemma quick_peak:
  assumes "0 \<le> t"
  shows "paramValue 1 [SetValue 0 now, LinearRamp 0.5 (now + 0.01), LinearRamp 0.5 (now + 0.25),
           LinearRamp 0 (now + 0.3)] (now + t) \<le> 0.5"
proof -
  consider "t \<le> 0.01" | "0.01 \<le> t" "t \<le> 0.25" | "0.25 \<le> t" "t \<le> 0.3" | "0.3 \<le> t"
    by linarith
  then show ?thesis
  proof cases
    case 1
    from quick_attack [OF assms 1, of now] 1 show ?thesis by simp
  next
    case 2
    from quick_hold [OF 2, of now] show ?thesis by simp
  next
    case 3
    from quick_release [OF 3, of now] 3 show ?thesis by simp
  next
    case 4
    from quick_silent [OF 4, of now] show ?thesis by simp
  qed
qed

lemma scale_voice_shape:
  assumes "v \<in> set (voices (runTimers cfg t0 (playCMajorScale pageLoaded)))"
  shows "gain v = [SetValue 0 (startTime v), LinearRamp 0.5 (startTime v + 0.01),
           LinearRamp 0.5 (startTime v + 0.25), LinearRamp 0 (startTime v + 0.3)]
    \<and> stopTime v = startTime v + 0.3 \<and> osc_type v = waveform cfg"
  using assms unfolding scale_voices by auto

text \<open>
  Claim C4. Whatever the sidebar settings are, each of the eight notes of the scale has
  the same quick envelope: the gain rises linearly from 0 to 0.5 during the first 0.01
  seconds, stays at 0.5 until 0.05 seconds before the end of the note, falls linearly
  to 0 at the end, and the oscillator runs for exactly 0.3 seconds. While the note
  sounds the gain never exceeds 0.5 and it reaches 0.5, so the peak gain is 0.5.
\<close>

theorem scale_note_envelope:
  "length (voices (runTimers cfg t0 (playCMajorScale pageLoaded))) = 8
   \<and> (\<forall>v \<in> set (voices (runTimers cfg t0 (playCMajorScale pageLoaded))).
        gainAt v (startTime v) = 0
      \<and> (\<forall>t. 0 \<le> t \<and> t \<le> 0.01 \<longrightarrow> gainAt v (startTime v + t) = 0.5 * (t / 0.01))
      \<and> (\<forall>t. 0.01 \<le> t \<and> t \<le> 0.3 - 0.05 \<longrightarrow> gainAt v (startTime v + t) = 0.5)
      \<and> (\<forall>t. 0.3 - 0.05 \<le> t \<and> t \<le> 0.3 \<longrightarrow>
            gainAt v (startTime v + t) = 0.5 - 0.5 * ((t - (0.3 - 0.05)) / 0.05))
      \<and> gainAt v (startTime v + 0.3) = 0
      \<and> stopTime v - startTime v = 0.3
      \<and> (\<forall>t. startTime v \<le> t \<longrightarrow> gainAt v t \<le> 0.5)
      \<and> gainAt v (startTime v + 0.01) = 0.5)"
proof -
  have count: "length (voices (runTimers cfg t0 (playCMajorScale pageLoaded))) = 8"
    by (simp add: scale_voices)
  have each: "gainAt v (startTime v) = 0
      \<and> (\<forall>t. 0 \<le> t \<and> t \<le> 0.01 \<longrightarrow> gainAt v (startTime v + t) = 0.5 * (t / 0.01))
      \<and> (\<forall>t. 0.01 \<le> t \<and> t \<le> 0.3 - 0.05 \<longrightarrow> gainAt v (startTime v + t) = 0.5)
      \<and> (\<forall>t. 0.3 - 0.05 \<le> t \<and> t \<le> 0.3 \<longrightarrow>
            gainAt v (startTime v + t) = 0.5 - 0.5 * ((t - (0.3 - 0.05)) / 0.05))
      \<and> gainAt v (startTime v + 0.3) = 0
      \<and> stopTime v - startTime v = 0.3
      \<and> (\<forall>t. startTime v \<le> t \<longrightarrow> gainAt v t \<le> 0.5)
      \<and> gainAt v (startTime v + 0.01) = 0.5"
    if "v \<in> set (voices (runTimers cfg t0 (playCMajorScale pageLoaded)))" for v
  proof -
    note shape = scale_voice_shape [OF that]
    have g: "gainAt v t = paramValue 1 [SetValue 0 (startTime v),
        LinearRamp 0.5 (startTime v + 0.01), LinearRamp 0.5 (startTime v + 0.25),
        LinearRamp 0 (startTime v + 0.3)] t" for t
      by (simp add: gainAt_def shape)
    have a0: "gainAt v (startTime v) = 0"
      using quick_attack [of 0 "startTime v"] by (simp add: g)
    have a1: "\<forall>t. 0 \<le> t \<and> t \<le> 0.01 \<longrightarrow> gainAt v (startTime v + t) = 0.5 * (t / 0.01)"
      using quick_attack [of _ "startTime v"] by (simp add: g)
    have a2: "\<forall>t. 0.01 \<le> t \<and> t \<le> 0.3 - 0.05 \<longrightarrow> gainAt v (startTime v + t) = 0.5"
      using quick_hold [of _ "startTime v"] by (simp add: g)
    have a3: "\<forall>t. 0.3 - 0.05 \<le> t \<and> t \<le> 0.3 \<longrightarrow>
        gainAt v (startTime v + t) = 0.5 - 0.5 * ((t - (0.3 - 0.05)) / 0.05)"
      using quick_release [of _ "startTime v"] by (simp add: g)
    have a4: "gainAt v (startTime v + 0.3) = 0"
      using quick_silent [of "0.3" "startTime v"] by (simp add: g)
    have a5: "stopTime v - startTime v = 0.3"
      by (simp add: shape)
    have a6: "\<forall>t. startTime v \<le> t \<longrightarrow> gainAt v t \<le> 0.5"
    proof (intro allI impI)
      fix t assume "startTime v \<le> t"
      then have "0 \<le> t - startTime v" by simp
      from quick_peak [OF this, of "startTime v"] show "gainAt v t \<le> 0.5"
        by (simp add: g)
    qed
    have a7: "gainAt v (startTime v + 0.01) = 0.5"
      using quick_hold [of "0.01" "startTime v"] by (simp add: g)
    from a0 a1 a2 a3 a4 a5 a6 a7 show ?thesis by (intro conjI)
  qed
  from count each show ?thesis by blast
qed

theorem scale_note_envelope_witness:
  "voices (runTimers defaults 0 (playCMajorScale pageLoaded)) ! 4
     \<in> set (voices (runTimers defaults 0 (playCMajorScale pageLoaded)))
   \<and> startTime (voices (runTimers defaults 0 (playCMajorScale pageLoaded)) ! 4) = 1.2
   \<and> gainAt (voices (runTimers defaults 0 (playCMajorScale pageLoaded)) ! 4) 1.2 = 0
   \<and> gainAt (voices (runTimers defaults 0 (playCMajorScale pageLoaded)) ! 4) (1.2 + 0.005) = 0.25
   \<and> gainAt (voices (runTimers defaults 0 (playCMajorScale pageLoaded)) ! 4) (1.2 + 0.1) = 0.5
   \<and> gainAt (voices (runTimers defaults 0 (playCMajorScale pageLoaded)) ! 4) (1.2 + 0.275) = 0.25
   \<and> gainAt (voices (runTimers defaults 0 (playCMajorScale pageLoaded)) ! 4) (1.2 + 0.3) = 0
   \<and> stopTime (voices (runTimers defaults 0 (playCMajorScale pageLoaded)) ! 4)
        - startTime (voices (runTimers defaults 0 (playCMajorScale pageLoaded)) ! 4) = 0.3"
proof -
  let ?v = "voices (runTimers defaults 0 (playCMajorScale pageLoaded)) ! 4"
  note th = scale_note_envelope [of defaults 0]
  have mem: "?v \<in> set (voices (runTimers defaults 0 (playCMajorScale pageLoaded)))"
    using th by (intro nth_mem) simp
  have start: "startTime ?v = 1.2"
    by (simp add: scale_voices)
  note each = th [THEN conjunct2, rule_format, OF mem]
  have a: "gainAt ?v (startTime ?v + 0.005) = 0.5 * (0.005 / 0.01)"
    using each by simp
  have b: "gainAt ?v (startTime ?v + 0.1) = 0.5"
    using each by simp
  have c: "gainAt ?v (startTime ?v + 0.275) = 0.5 - 0.5 * ((0.275 - (0.3 - 0.05)) / 0.05)"
    using each by simp
  have d: "gainAt ?v (startTime ?v) = 0" "gainAt ?v (startTime ?v + 0.3) = 0"
    "stopTime ?v - startTime ?v = 0.3"
    using each by simp_all
  from mem start a b c d show ?thesis
    by (simp add: start)
qed

text \<open>
  Claim C3. \<open>playCMajorScale\<close> sets eight note timers, for the frequencies 261.63,
  293.66, 329.63, 349.23, 392.00, 440.00, 493.88 and 523.25 in this order, note \<open>i\<close>
  with a delay of \<open>i * 0.3\<close> seconds, and after them the timer that hides the status
  line. With timers that fire on time, eight voices result with these frequencies, voice
  \<open>i\<close> starting exactly \<open>i * 0.3\<close> seconds after the click and lasting 0.3 seconds, so
  that the scale ends \<open>8 * 0.3 = 2.4\<close> seconds after its first note began.
\<close>

theorem scale_schedule:
  "map action (timers (playCMajorScale st)) = map action (timers st) @
     [PlayNoteInScale 261.63 0.3 ''C4'', PlayNoteInScale 293.66 0.3 ''D4'',
      PlayNoteInScale 329.63 0.3 ''E4'', PlayNoteInScale 349.23 0.3 ''F4'',
      PlayNoteInScale 392.00 0.3 ''G4'', PlayNoteInScale 440.00 0.3 ''A4'',
      PlayNoteInScale 493.88 0.3 ''B4'', PlayNoteInScale 523.25 0.3 ''C5'', HideStatus]
   \<and> map delay (timers (playCMajorScale st)) = map delay (timers st) @
       map (\<lambda>i. real i * 0.3 * 1000) [0 ..< 8] @ [8 * 0.3 * 1000 + 500]
   \<and> length (voices (runTimers cfg t0 (playCMajorScale pageLoaded))) = 8
   \<and> map (\<lambda>v. frequencyAt v (startTime v)) (voices (runTimers cfg t0 (playCMajorScale pageLoaded)))
       = [261.63, 293.66, 329.63, 349.23, 392.00, 440.00, 493.88, 523.25]
   \<and> map (\<lambda>v. frequencyAt v (stopTime v)) (voices (runTimers cfg t0 (playCMajorScale pageLoaded)))
       = [261.63, 293.66, 329.63, 349.23, 392.00, 440.00, 493.88, 523.25]
   \<and> map startTime (voices (runTimers cfg t0 (playCMajorScale pageLoaded)))
       = map (\<lambda>i. t0 + real i * 0.3) [0 ..< 8]
   \<and> map stopTime (voices (runTimers cfg t0 (playCMajorScale pageLoaded)))
       = map (\<lambda>i. t0 + real i * 0.3 + 0.3) [0 ..< 8]
   \<and> stopTime (last (voices (runTimers cfg t0 (playCMajorScale pageLoaded)))) = t0 + 8 * 0.3
   \<and> stopTime (last (voices (runTimers cfg t0 (playCMajorScale pageLoaded))))
        - startTime (hd (voices (runTimers cfg t0 (playCMajorScale pageLoaded)))) = 2.4"
proof -
  have idx: "[0 ..< 8] = [0, 1, 2, 3, 4, 5, 6, 7::nat]"
    by (simp add: upt_rec)
  have t1: "map action (timers (playCMajorScale st)) = map action (timers st) @
     [PlayNoteInScale 261.63 0.3 ''C4'', PlayNoteInScale 293.66 0.3 ''D4'',
      PlayNoteInScale 329.63 0.3 ''E4'', PlayNoteInScale 349.23 0.3 ''F4'',
      PlayNoteInScale 392.00 0.3 ''G4'', PlayNoteInScale 440.00 0.3 ''A4'',
      PlayNoteInScale 493.88 0.3 ''B4'', PlayNoteInScale 523.25 0.3 ''C5'', HideStatus]"
    by (simp add: playCMajorScale_timers)
  have t2: "map delay (timers (playCMajorScale st)) = map delay (timers st) @
       map (\<lambda>i. real i * 0.3 * 1000) [0 ..< 8] @ [8 * 0.3 * 1000 + 500]"
    by (simp add: playCMajorScale_timers idx)
  have v1: "length (voices (runTimers cfg t0 (playCMajorScale pageLoaded))) = 8"
    by (simp add: scale_voices)
  have v2: "map (\<lambda>v. frequencyAt v (startTime v)) (voices (runTimers cfg t0 (playCMajorScale pageLoaded)))
       = [261.63, 293.66, 329.63, 349.23, 392.00, 440.00, 493.88, 523.25]"
    by (simp add: scale_voices frequencyAt_def paramValue_def)
  have v3: "map (\<lambda>v. frequencyAt v (stopTime v)) (voices (runTimers cfg t0 (playCMajorScale pageLoaded)))
       = [261.63, 293.66, 329.63, 349.23, 392.00, 440.00, 493.88, 523.25]"
    by (simp add: scale_voices frequencyAt_def paramValue_def)
  have v4: "map startTime (voices (runTimers cfg t0 (playCMajorScale pageLoaded)))
       = map (\<lambda>i. t0 + real i * 0.3) [0 ..< 8]"
    by (simp add: scale_voices idx)
  have v5: "map stopTime (voices (runTimers cfg t0 (playCMajorScale pageLoaded)))
       = map (\<lambda>i. t0 + real i * 0.3 + 0.3) [0 ..< 8]"
    by (simp add: scale_voices idx)
  have v6: "stopTime (last (voices (runTimers cfg t0 (playCMajorScale pageLoaded)))) = t0 + 8 * 0.3"
    by (simp add: scale_voices)
  have v7: "stopTime (last (voices (runTimers cfg t0 (playCMajorScale pageLoaded))))
        - startTime (hd (voices (runTimers cfg t0 (playCMajorScale pageLoaded)))) = 2.4"
    by (simp add: scale_voices)
  from t1 t2 v1 v2 v3 v4 v5 v6 v7 show ?thesis by (intro conjI)
qed

lemma runCallback_waveform:
  assumes "waveform c1 = waveform c2"
  shows "runCallback c1 now cb st = runCallback c2 now cb st"
  using assms by (cases cb) (simp_all add: playNoteInScale_def)

text \<open>
  Claim C5. Two settings with the same waveform give the same scale, whatever their
  frequency, attack, decay, sustain and release are: the click on the scale button
  leaves the same page state, and after the timers have run the pages are equal, in
  particular the voices with their start and stop times, frequencies and gain timelines.
\<close>

theorem scale_depends_on_waveform_only:
  assumes "waveform c1 = waveform c2"
  shows "click c1 nowA PlayScaleButton st = click c2 nowB PlayScaleButton st
    \<and> runTimers c1 t0 (click c1 nowA PlayScaleButton st)
        = runTimers c2 t0 (click c2 nowB PlayScaleButton st)
    \<and> voices (runTimers c1 t0 (click c1 nowA PlayScaleButton st))
        = voices (runTimers c2 t0 (click c2 nowB PlayScaleButton st))"
proof -
  have "runCallback c1 = runCallback c2"
    by (intro ext) (rule runCallback_waveform [OF assms])
  then have "runTimers c1 t0 s = runTimers c2 t0 s" for s
    by (simp add: runTimers_def)
  then show ?thesis by simp
qed

theorem scale_depends_on_waveform_only_witness:
  "waveform defaults
     = waveform \<lparr>frequency = 200, waveform = ''sine'', attack = 2, decay = 1, sustain = 0,
         release = 3\<rparr>
   \<and> runTimers defaults 0 (click defaults 0 PlayScaleButton pageLoaded)
       = runTimers \<lparr>frequency = 200, waveform = ''sine'', attack = 2, decay = 1, sustain = 0,
           release = 3\<rparr> 0
          (click \<lparr>frequency = 200, waveform = ''sine'', attack = 2, decay = 1, sustain = 0,
             release = 3\<rparr> 0 PlayScaleButton pageLoaded)"
proof -
  have w: "waveform defaults
     = waveform \<lparr>frequency = 200, waveform = ''sine'', attack = 2, decay = 1, sustain = 0,
         release = 3\<rparr>"
    by (simp add: defaults_def)
  from scale_depends_on_waveform_only [OF w, where nowA = 0 and nowB = 0 and st = pageLoaded and ?t0.0 = 0] w show ?thesis
    by blast
qed

section \<open>The boundary: what the sidebar lets through\<close>

lemma sidebar_untouched: "sidebar untouched = defaults"
  by (simp add: sidebar_def untouched_def defaults_def)



section \<open>Clicks and callbacks only add timers and voices\<close>

text \<open>
  A click on either button and a timer callback leave the timers and voices that exist
  in place and unchanged; new ones are added after them.
\<close>

lemma playTone_timers:
  "timers (playTone cfg now st) = timers st @
     [\<lparr>delay = (attack cfg + decay cfg + 0.5 + release cfg) * 1000 + 500, action = HideStatus\<rparr>]"
  by (simp add: playTone_def Let_def setTimeout_def showStatus_def initAudioContext_def)

lemma click_keeps_timers: "prefix (timers st) (timers (click cfg now b st))"
  by (cases b) (simp_all add: playTone_timers playCMajorScale_timers)

lemma click_keeps_voices: "prefix (voices st) (voices (click cfg now b st))"
  by (cases b) (simp_all add: playTone_voices playCMajorScale_voices)

lemma runCallback_keeps_timers: "timers (runCallback cfg now cb st) = timers st"
  by (cases cb) (simp_all add: playNoteInScale_def Let_def updateStatus_def hideStatus_def)

lemma runCallback_keeps_voices: "prefix (voices st) (voices (runCallback cfg now cb st))"
  by (cases cb) (simp_all add: playNoteInScale_def Let_def updateStatus_def hideStatus_def)

end
